theory Spec2Isabelle
  imports Main
begin

section \<open>Python values shared by the exercises\<close>

text \<open>
  The values that travel through the pipelines: what \<^verbatim>\<open>response.json()\<close> parses,
  what a raw record holds, what a model dumps, and what a coroutine returns.
  Floating-point numbers are kept abstract (type parameter \<open>'f\<close>): no function below
  computes with them. A \<^verbatim>\<open>datetime.date\<close> is its day number (\<^verbatim>\<open>toordinal()\<close>).
  A \<^verbatim>\<open>dict\<close> is an association list in insertion order. Strings are ASCII text.
\<close>

type_synonym date = int

datatype 'f pyval =
    PyNone
  | PyBool bool
  | PyInt int
  | PyFloat 'f
  | PyStr string
  | PyDate date
  | PyList "'f pyval list"
  | PyDict "(string \<times> 'f pyval) list"

text \<open>
  Exceptions carry the class that decides which \<^verbatim>\<open>except\<close> clause takes them:
  \<^verbatim>\<open>asyncio.TimeoutError\<close>, \<^verbatim>\<open>aiohttp.ClientError\<close>, or any other subclass of
  \<^verbatim>\<open>Exception\<close> (\<^verbatim>\<open>AttributeError\<close>, \<^verbatim>\<open>ValueError\<close>, ...), named by the string.
  What is not a subclass of \<^verbatim>\<open>Exception\<close> (the cancellation of a task, an interrupt of the
  process) is no behaviour of a request and is left out: nothing in the program cancels
  a task.
\<close>

datatype exc_class = TimeoutError | ClientError | OtherException

datatype py_exception = PyExc exc_class string

section \<open>day-04-asyncio.py: bounded-concurrency extraction\<close>

subsection \<open>Module constants\<close>

definition BASE_URL :: string where
  "BASE_URL = ''https://pokeapi.co/api/v2/pokemon/''"

definition POKEMON_IDS :: "int list" where
  "POKEMON_IDS = [1..50]"

definition MAX_CONCURRENT_REQUESTS :: int where
  "MAX_CONCURRENT_REQUESTS = 10"

definition TIMEOUT_SECONDS :: int where
  "TIMEOUT_SECONDS = 10"

subsection \<open>Formatting an identifier into the URL\<close>

fun str_nat :: "nat \<Rightarrow> string" where
  "str_nat n =
     (if n < 10 then [''0123456789'' ! n]
      else str_nat (n div 10) @ [''0123456789'' ! (n mod 10)])"

declare str_nat.simps [simp del]

text \<open>
  Python writes an \<^verbatim>\<open>int\<close> in decimal only up to a limit of digits (4300 by default,
  the sign not counted) and raises \<^verbatim>\<open>ValueError\<close> beyond it. \<^verbatim>\<open>str\<close>, an f-string and
  \<^verbatim>\<open>json.dumps\<close> all go through this conversion.
\<close>

definition MAX_STR_DIGITS :: nat where
  "MAX_STR_DIGITS = 4300"

definition str_int :: "int \<Rightarrow> py_exception + string" where
  "str_int i =
     (let digits = str_nat (nat \<bar>i\<bar>) in
      if MAX_STR_DIGITS < length digits then Inl (PyExc OtherException ''ValueError'')
      else Inr (if i < 0 then CHR ''-'' # digits else digits))"

subsection \<open>The network as the dispatcher sees it\<close>

text \<open>
  A response exposes its status and what awaiting \<^verbatim>\<open>response.json()\<close> does: it
  returns the parsed body or raises. A session maps the URL and the timeout of one
  \<^verbatim>\<open>session.get\<close> to a response or to the exception the call raises.
\<close>

record 'f response =
  status :: int
  json_body :: "py_exception + 'f pyval"

type_synonym 'f session = "string \<Rightarrow> int \<Rightarrow> py_exception + 'f response"

text \<open>\<^verbatim>\<open>data.get(key)\<close>: defined on a dict only; any other value has no such attribute.\<close>

definition py_get :: "'f pyval \<Rightarrow> string \<Rightarrow> py_exception + 'f pyval" where
  "py_get data k =
     (case data of
        PyDict kvs \<Rightarrow> Inr (case map_of kvs k of None \<Rightarrow> PyNone | Some v \<Rightarrow> v)
      | _ \<Rightarrow> Inl (PyExc OtherException ''AttributeError''))"

subsection \<open>fetch_entity_data\<close>

text \<open>
  The body of the \<^verbatim>\<open>try\<close>: the request, the status test, the parse, and the
  \<^verbatim>\<open>data.get('name')\<close> evaluated for the log line before \<^verbatim>\<open>return data\<close>.
  The log lines themselves are not modelled.
\<close>

definition request_and_parse :: "'f session \<Rightarrow> string \<Rightarrow> py_exception + 'f pyval" where
  "request_and_parse session url =
     (case session url TIMEOUT_SECONDS of
        Inl e \<Rightarrow> Inl e
      | Inr response \<Rightarrow>
          if status response = 200 then
            (case json_body response of
               Inl e \<Rightarrow> Inl e
             | Inr data \<Rightarrow>
                 (case py_get data ''name'' of
                    Inl e \<Rightarrow> Inl e
                  | Inr _ \<Rightarrow> Inr data))
          else Inr PyNone)"

text \<open>
  The URL is formatted before the \<^verbatim>\<open>try\<close>: an exception of the formatting leaves the
  coroutine. Then the three \<^verbatim>\<open>except\<close> clauses in source order; each logs and falls
  through to the final \<^verbatim>\<open>return None\<close>. The result is \<open>Inl\<close> when an exception leaves
  the function. This is what the coroutine does between acquiring and releasing the
  semaphore; the gate itself is the step relation below.
\<close>

definition fetch_entity_data :: "'f session \<Rightarrow> int \<Rightarrow> py_exception + 'f pyval" where
  "fetch_entity_data session entity_id =
     (case str_int entity_id of
        Inl e \<Rightarrow> Inl e
      | Inr digits \<Rightarrow>
          (let url = BASE_URL @ digits in
           case request_and_parse session url of
             Inr v \<Rightarrow> Inr v
           | Inl (PyExc cls detail) \<Rightarrow>
               if cls = TimeoutError then Inr PyNone
               else if cls = ClientError then Inr PyNone
               else Inr PyNone))"

subsection \<open>The admission gate\<close>

text \<open>
  \<^verbatim>\<open>asyncio.Semaphore\<close>, by its counter: the constructor rejects a negative value,
  \<^verbatim>\<open>acquire\<close> takes a slot when the counter is positive and otherwise leaves the
  caller suspended (\<open>None\<close>), \<^verbatim>\<open>release\<close> gives the slot back.
\<close>

definition Semaphore :: "int \<Rightarrow> py_exception + int" where
  "Semaphore v = (if v < 0 then Inl (PyExc OtherException ''ValueError'') else Inr v)"

definition acquire :: "int \<Rightarrow> int option" where
  "acquire v = (if 0 < v then Some (v - 1) else None)"

definition release :: "int \<Rightarrow> int" where
  "release v = v + 1"

text \<open>
  One coroutine per identifier. It waits at \<^verbatim>\<open>async with semaphore\<close>, is in flight while
  it holds a slot, and is finished with its result once the \<^verbatim>\<open>async with\<close> block is left
  (which releases the slot on every exit path).
\<close>

datatype 'f task = Waiting | InFlight | Finished "py_exception + 'f pyval"

record 'f pipeline =
  gate :: int
  tasks :: "'f task list"

text \<open>
  The event loop interleaves the coroutines in any order. Task \<open>i\<close> talks to the network
  through \<open>net i\<close>: two fetches of the same identifier may be answered differently.
\<close>

inductive step :: "(nat \<Rightarrow> 'f session) \<Rightarrow> int list \<Rightarrow> 'f pipeline \<Rightarrow> 'f pipeline \<Rightarrow> bool"
  for net :: "nat \<Rightarrow> 'f session" and ids :: "int list" where
  enter: "i < length (tasks s) \<Longrightarrow> tasks s ! i = Waiting \<Longrightarrow> acquire (gate s) = Some g \<Longrightarrow>
          step net ids s \<lparr>gate = g, tasks = (tasks s)[i := InFlight]\<rparr>"
| leave: "i < length (tasks s) \<Longrightarrow> tasks s ! i = InFlight \<Longrightarrow>
          step net ids s
            \<lparr>gate = release (gate s),
             tasks = (tasks s)[i := Finished (fetch_entity_data (net i) (ids ! i))]\<rparr>"

definition launch :: "int \<Rightarrow> int list \<Rightarrow> 'f pipeline" where
  "launch g ids = \<lparr>gate = g, tasks = replicate (length ids) Waiting\<rparr>"

fun holding :: "'f task list \<Rightarrow> nat" where
  "holding [] = 0"
| "holding (t # ts) = (if t = InFlight then Suc (holding ts) else holding ts)"

fun pending :: "'f task list \<Rightarrow> nat" where
  "pending [] = 0"
| "pending (Waiting # ts) = 2 + pending ts"
| "pending (InFlight # ts) = 1 + pending ts"
| "pending (Finished r # ts) = pending ts"

subsection \<open>run_extraction_pipeline\<close>

text \<open>
  \<^verbatim>\<open>asyncio.gather(*tasks, return_exceptions=True)\<close> returns, in input order, what each
  coroutine returned, an exception that left a coroutine standing in the list as a value.
\<close>

definition gather :: "(py_exception + 'f pyval) list \<Rightarrow> (py_exception + 'f pyval) list" where
  "gather outcomes = outcomes"

definition isinstance_dict :: "py_exception + 'f pyval \<Rightarrow> bool" where
  "isinstance_dict r = (case r of Inr (PyDict kvs) \<Rightarrow> True | _ \<Rightarrow> False)"

text \<open>
  What a run leaves behind: the gathered list, the filtered list, and the two numbers
  of the summary line \<^verbatim>\<open>Registros exitosos: a/b\<close>.
\<close>

record 'f summary =
  results :: "(py_exception + 'f pyval) list"
  valid_results :: "(py_exception + 'f pyval) list"
  exitosos :: nat
  total :: nat

definition dispatch_all :: "(nat \<Rightarrow> 'f session) \<Rightarrow> int list \<Rightarrow> (py_exception + 'f pyval) list" where
  "dispatch_all net ids = map (\<lambda>(i, p_id). fetch_entity_data (net i) p_id) (enumerate 0 ids)"

text \<open>
  The capacity and the identifiers are the module constants
  \<open>MAX_CONCURRENT_REQUESTS\<close> and \<open>POKEMON_IDS\<close>, taken as parameters here.
  The outer \<open>option\<close> is \<open>None\<close> when the run never returns: with a gate of capacity
  zero no coroutine ever passes \<^verbatim>\<open>async with semaphore\<close> and \<^verbatim>\<open>gather\<close> waits forever
  (lemmas \<open>complete_run\<close> and \<open>closed_gate_stuck\<close> below relate this to \<open>step\<close>).
\<close>

definition run_extraction_pipeline ::
    "int \<Rightarrow> (nat \<Rightarrow> 'f session) \<Rightarrow> int list \<Rightarrow> (py_exception + 'f summary) option" where
  "run_extraction_pipeline capacity net ids =
     (case Semaphore capacity of
        Inl e \<Rightarrow> Some (Inl e)
      | Inr semaphore \<Rightarrow>
          if semaphore = 0 \<and> ids \<noteq> [] then None
          else
            (let results = gather (dispatch_all net ids);
                 valid_results = filter isinstance_dict results
             in Some (Inr \<lparr>results = results, valid_results = valid_results,
                           exitosos = length valid_results, total = length ids\<rparr>)))"

subsection \<open>What the specification asks of the dispatcher\<close>



subsection \<open>Sessions used as concrete inputs\<close>

definition answers_404_for_2 :: "'f session" where
  "answers_404_for_2 url timeout =
     (if url = BASE_URL @ ''2''
      then Inr \<lparr>status = 404, json_body = Inr (PyStr ''Not Found'')\<rparr>
      else Inr \<lparr>status = 200, json_body = Inr (PyDict [(''name'', PyStr url)])\<rparr>)"




subsection \<open>Invariants of a run\<close>

definition gate_inv :: "int \<Rightarrow> int list \<Rightarrow> 'f pipeline \<Rightarrow> bool" where
  "gate_inv c ids s =
     (length (tasks s) = length ids \<and> gate s + int (holding (tasks s)) = c \<and> 0 \<le> gate s)"

definition results_inv :: "(nat \<Rightarrow> 'f session) \<Rightarrow> int list \<Rightarrow> 'f pipeline \<Rightarrow> bool" where
  "results_inv net ids s =
     list_all2 (\<lambda>t r. t = Waiting \<or> t = InFlight \<or> t = Finished r) (tasks s) (dispatch_all net ids)"

section \<open>Validation: pydantic_etl_validator.py and day-07-ingestor-generico.py\<close>

subsection \<open>What pydantic hands to the exercises\<close>

text \<open>
  pydantic is a library, not code of the repository. A \<^verbatim>\<open>ValidationError\<close> holds at least
  one error; \<^verbatim>\<open>errors()\<close> lists them, each with its type, location, message and input.
\<close>

record 'f error_details =
  err_type :: string
  loc :: "string list"
  msg :: string
  err_input :: "'f pyval"

datatype 'f ValidationError = ValidationError "'f error_details" "'f error_details list"

fun errors :: "'f ValidationError \<Rightarrow> 'f error_details list" where
  "errors (ValidationError d ds) = d # ds"

text \<open>
  What the library decides and the exercises do not: the lax conversions of a value that
  is not yet of the field's type (a numeric string for an \<^verbatim>\<open>int\<close>, an ISO string for a
  \<^verbatim>\<open>date\<close>, ...), the address check and normalisation behind \<^verbatim>\<open>EmailStr\<close>, and the
  comparison of a float with 0.01. Each conversion answers with the value or with the
  type and message of the error.
\<close>

record 'f pydantic_core =
  int_lax :: "'f pyval \<Rightarrow> (string \<times> string) + int"
  float_lax :: "'f pyval \<Rightarrow> (string \<times> string) + 'f"
  str_lax :: "'f pyval \<Rightarrow> (string \<times> string) + string"
  date_lax :: "'f pyval \<Rightarrow> (string \<times> string) + date"
  email_validator :: "string \<Rightarrow> (string \<times> string) + string"
  ge_0_01 :: "'f \<Rightarrow> bool"

text \<open>
  A value that already has the type of the field is taken as it is; anything else goes
  through the lax conversion. \<^verbatim>\<open>Optional[str]\<close> lets \<^verbatim>\<open>None\<close> through.
\<close>

definition validate_int :: "'f pydantic_core \<Rightarrow> 'f pyval \<Rightarrow> (string \<times> string) + int" where
  "validate_int core v = (case v of PyInt i \<Rightarrow> Inr i | _ \<Rightarrow> int_lax core v)"

definition validate_float :: "'f pydantic_core \<Rightarrow> 'f pyval \<Rightarrow> (string \<times> string) + 'f" where
  "validate_float core v = (case v of PyFloat x \<Rightarrow> Inr x | _ \<Rightarrow> float_lax core v)"

definition validate_str :: "'f pydantic_core \<Rightarrow> 'f pyval \<Rightarrow> (string \<times> string) + string" where
  "validate_str core v = (case v of PyStr s \<Rightarrow> Inr s | _ \<Rightarrow> str_lax core v)"

definition validate_date :: "'f pydantic_core \<Rightarrow> 'f pyval \<Rightarrow> (string \<times> string) + date" where
  "validate_date core v = (case v of PyDate d \<Rightarrow> Inr d | _ \<Rightarrow> date_lax core v)"

definition validate_email :: "'f pydantic_core \<Rightarrow> 'f pyval \<Rightarrow> (string \<times> string) + string" where
  "validate_email core v =
     (case validate_str core v of Inl e \<Rightarrow> Inl e | Inr s \<Rightarrow> email_validator core s)"

definition validate_optional_str ::
    "'f pydantic_core \<Rightarrow> 'f pyval \<Rightarrow> (string \<times> string) + string option" where
  "validate_optional_str core v =
     (case v of
        PyNone \<Rightarrow> Inr None
      | _ \<Rightarrow> (case validate_str core v of Inl e \<Rightarrow> Inl e | Inr s \<Rightarrow> Inr (Some s)))"

text \<open>
  One field of a model: a required field (\<^verbatim>\<open>Field(...)\<close>), a field with a default (the
  default is not validated), and a field with an alias under \<^verbatim>\<open>populate_by_name = True\<close>
  (the alias is looked up first, then the field's own name). \<open>collect\<close> gathers the fields
  in declaration order: the model is built when every field is valid, and otherwise the
  error holds the errors of all failing fields.
\<close>

definition field_value ::
    "string \<Rightarrow> 'f pyval \<Rightarrow> (string \<times> string) + 'a \<Rightarrow> 'f error_details + 'a" where
  "field_value key v r =
     (case r of
        Inl (t, m) \<Rightarrow> Inl \<lparr>err_type = t, loc = [key], msg = m, err_input = v\<rparr>
      | Inr x \<Rightarrow> Inr x)"

definition required ::
    "(string \<times> 'f pyval) list \<Rightarrow> string \<Rightarrow> ('f pyval \<Rightarrow> (string \<times> string) + 'a)
       \<Rightarrow> 'f error_details + 'a" where
  "required registro key validate =
     (case map_of registro key of
        None \<Rightarrow> Inl \<lparr>err_type = ''missing'', loc = [key], msg = ''Field required'',
                     err_input = PyDict registro\<rparr>
      | Some v \<Rightarrow> field_value key v (validate v))"

definition with_default ::
    "(string \<times> 'f pyval) list \<Rightarrow> string \<Rightarrow> 'a \<Rightarrow> ('f pyval \<Rightarrow> (string \<times> string) + 'a)
       \<Rightarrow> 'f error_details + 'a" where
  "with_default registro key dflt validate =
     (case map_of registro key of
        None \<Rightarrow> Inr dflt
      | Some v \<Rightarrow> field_value key v (validate v))"

definition aliased ::
    "(string \<times> 'f pyval) list \<Rightarrow> string \<Rightarrow> string \<Rightarrow> ('f pyval \<Rightarrow> (string \<times> string) + 'a)
       \<Rightarrow> 'f error_details + 'a" where
  "aliased registro alias name validate =
     (case map_of registro alias of
        Some v \<Rightarrow> field_value alias v (validate v)
      | None \<Rightarrow>
          (case map_of registro name of
             Some v \<Rightarrow> field_value alias v (validate v)
           | None \<Rightarrow> Inl \<lparr>err_type = ''missing'', loc = [alias], msg = ''Field required'',
                          err_input = PyDict registro\<rparr>))"

fun collect ::
    "'f ValidationError + ('a \<Rightarrow> 'b) \<Rightarrow> 'f error_details + 'a \<Rightarrow> 'f ValidationError + 'b" where
  "collect (Inr f) (Inr x) = Inr (f x)"
| "collect (Inr f) (Inl d) = Inl (ValidationError d [])"
| "collect (Inl e) (Inr x) = Inl e"
| "collect (Inl (ValidationError d ds)) (Inl d') = Inl (ValidationError d (ds @ [d']))"

subsection \<open>TransaccionVentas\<close>

record 'f TransaccionVentas =
  transaccion_id :: int
  email_cliente :: string
  monto_usd :: 'f
  fecha_transaccion :: date
  metodo_pago :: string
  notas_adicionales :: "string option"

text \<open>
  The two \<^verbatim>\<open>field_validator\<close>s. \<open>today\<close> is what \<^verbatim>\<open>date.today()\<close> returns. The message
  of the \<^verbatim>\<open>ValueError\<close> is written without its accents. \<^verbatim>\<open>strip\<close> and \<^verbatim>\<open>upper\<close> are those
  of \<^verbatim>\<open>str\<close> on ASCII text.
\<close>

definition validar_fecha_no_futura :: "date \<Rightarrow> date \<Rightarrow> (string \<times> string) + date" where
  "validar_fecha_no_futura today valor_fecha =
     (if valor_fecha > today
      then Inl (''value_error'',
                ''Value error, Data Quality Error: La fecha de la transaccion no puede ser posterior al dia de hoy.'')
      else Inr valor_fecha)"

definition isspace :: "char \<Rightarrow> bool" where
  "isspace c = (let n = of_char c :: nat in (9 \<le> n \<and> n \<le> 13) \<or> (28 \<le> n \<and> n \<le> 32))"

definition upper_char :: "char \<Rightarrow> char" where
  "upper_char c = (let n = of_char c :: nat in if 97 \<le> n \<and> n \<le> 122 then char_of (n - 32) else c)"

definition py_strip :: "string \<Rightarrow> string" where
  "py_strip s = rev (dropWhile isspace (rev (dropWhile isspace s)))"

definition py_upper :: "string \<Rightarrow> string" where
  "py_upper s = map upper_char s"

definition estandarizar_metodo_pago :: "string \<Rightarrow> string" where
  "estandarizar_metodo_pago valor_metodo = py_upper (py_strip valor_metodo)"

text \<open>The fields with a constraint or a validator after the type: \<^verbatim>\<open>ge=0.01\<close>, the two validators.\<close>

definition monto_usd_field :: "'f pydantic_core \<Rightarrow> 'f pyval \<Rightarrow> (string \<times> string) + 'f" where
  "monto_usd_field core v =
     (case validate_float core v of
        Inl e \<Rightarrow> Inl e
      | Inr x \<Rightarrow>
          if ge_0_01 core x then Inr x
          else Inl (''greater_than_equal'', ''Input should be greater than or equal to 0.01''))"

definition fecha_transaccion_field ::
    "'f pydantic_core \<Rightarrow> date \<Rightarrow> 'f pyval \<Rightarrow> (string \<times> string) + date" where
  "fecha_transaccion_field core today v =
     (case validate_date core v of
        Inl e \<Rightarrow> Inl e
      | Inr d \<Rightarrow> validar_fecha_no_futura today d)"

definition metodo_pago_field :: "'f pydantic_core \<Rightarrow> 'f pyval \<Rightarrow> (string \<times> string) + string" where
  "metodo_pago_field core v =
     (case validate_str core v of
        Inl e \<Rightarrow> Inl e
      | Inr s \<Rightarrow> Inr (estandarizar_metodo_pago s))"

text \<open>\<^verbatim>\<open>TransaccionVentas(**registro)\<close> and \<^verbatim>\<open>model_dump()\<close>.\<close>

definition TransaccionVentas_init ::
    "'f pydantic_core \<Rightarrow> date \<Rightarrow> (string \<times> 'f pyval) list
       \<Rightarrow> 'f ValidationError + 'f TransaccionVentas" where
  "TransaccionVentas_init core today registro =
     collect (collect (collect (collect (collect (collect
       (Inr (\<lambda>a b c d e f.
               \<lparr>transaccion_id = a, email_cliente = b, monto_usd = c,
                fecha_transaccion = d, metodo_pago = e, notas_adicionales = f\<rparr>))
       (required registro ''transaccion_id'' (validate_int core)))
       (required registro ''email_cliente'' (validate_email core)))
       (required registro ''monto_usd'' (monto_usd_field core)))
       (required registro ''fecha_transaccion'' (fecha_transaccion_field core today)))
       (with_default registro ''metodo_pago'' ''NO_ESPECIFICADO'' (metodo_pago_field core)))
       (with_default registro ''notas_adicionales'' None (validate_optional_str core))"

definition TransaccionVentas_model_dump :: "'f TransaccionVentas \<Rightarrow> (string \<times> 'f pyval) list" where
  "TransaccionVentas_model_dump m =
     [(''transaccion_id'', PyInt (transaccion_id m)),
      (''email_cliente'', PyStr (email_cliente m)),
      (''monto_usd'', PyFloat (monto_usd m)),
      (''fecha_transaccion'', PyDate (fecha_transaccion m)),
      (''metodo_pago'', PyStr (metodo_pago m)),
      (''notas_adicionales'', (case notas_adicionales m of None \<Rightarrow> PyNone | Some s \<Rightarrow> PyStr s))]"

subsection \<open>UsuarioAPI\<close>

record UsuarioAPI =
  id_usuario :: int
  nombre :: string
  email :: string

text \<open>\<^verbatim>\<open>UsuarioAPI(**registro)\<close> and \<^verbatim>\<open>model_dump(by_alias=False)\<close>.\<close>

definition UsuarioAPI_init ::
    "'f pydantic_core \<Rightarrow> (string \<times> 'f pyval) list \<Rightarrow> 'f ValidationError + UsuarioAPI" where
  "UsuarioAPI_init core registro =
     collect (collect (collect
       (Inr (\<lambda>a b c. \<lparr>id_usuario = a, nombre = b, email = c\<rparr>))
       (aliased registro ''id'' ''id_usuario'' (validate_int core)))
       (aliased registro ''name'' ''nombre'' (validate_str core)))
       (required registro ''email'' (validate_email core))"

definition UsuarioAPI_model_dump :: "UsuarioAPI \<Rightarrow> (string \<times> 'f pyval) list" where
  "UsuarioAPI_model_dump u =
     [(''id_usuario'', PyInt (id_usuario u)),
      (''nombre'', PyStr (nombre u)),
      (''email'', PyStr (email u))]"

subsection \<open>A concrete core and the sample batch of the script\<close>

text \<open>
  A core that knows the conversions the sample batch needs: the identifier given as the
  string \<^verbatim>\<open>"1001"\<close>, the three ISO dates, an address test that looks for the at-sign.
  Amounts stand for floats as whole cents, so 0.01 is 1.
\<close>

definition sample_core :: "int pydantic_core" where
  "sample_core =
     \<lparr>int_lax = (\<lambda>v. case v of
                        PyStr s \<Rightarrow> if s = ''1001'' then Inr 1001
                                   else Inl (''int_parsing'', ''Input should be a valid integer'')
                      | _ \<Rightarrow> Inl (''int_type'', ''Input should be a valid integer'')),
      float_lax = (\<lambda>v. case v of
                          PyInt i \<Rightarrow> Inr (100 * i)
                        | _ \<Rightarrow> Inl (''float_type'', ''Input should be a valid number'')),
      str_lax = (\<lambda>v. Inl (''string_type'', ''Input should be a valid string'')),
      date_lax = (\<lambda>v. case v of
                         PyStr s \<Rightarrow>
                           (case map_of [(''2023-10-15'', 738808), (''2023-10-16'', 738809),
                                         (''2099-12-31'', 766644)] s of
                              Some d \<Rightarrow> Inr d
                            | None \<Rightarrow> Inl (''date_from_datetime_parsing'',
                                          ''Input should be a valid date or datetime''))
                       | _ \<Rightarrow> Inl (''date_type'', ''Input should be a valid date'')),
      email_validator = (\<lambda>s. if CHR ''@'' \<in> set s then Inr s
                              else Inl (''value_error'', ''An email address must have an @-sign.'')),
      ge_0_01 = (\<lambda>x. 1 \<le> x)\<rparr>"

definition lote_json_sucio :: "(string \<times> int pyval) list list" where
  "lote_json_sucio =
     [[(''transaccion_id'', PyStr ''1001''),
       (''email_cliente'', PyStr ''usuario1@empresa.com''),
       (''monto_usd'', PyFloat 15050),
       (''fecha_transaccion'', PyStr ''2023-10-15''),
       (''metodo_pago'', PyStr ''   tarjeta_credito  '')],
      [(''transaccion_id'', PyInt 1002),
       (''email_cliente'', PyStr ''usuario2_sin_arroba.com''),
       (''monto_usd'', PyFloat 5000),
       (''fecha_transaccion'', PyStr ''2023-10-15'')],
      [(''transaccion_id'', PyInt 1003),
       (''email_cliente'', PyStr ''usuario3@empresa.com''),
       (''monto_usd'', PyFloat (- 1000)),
       (''fecha_transaccion'', PyStr ''2099-12-31'')],
      [(''transaccion_id'', PyInt 1004),
       (''email_cliente'', PyStr ''usuario4@empresa.com''),
       (''monto_usd'', PyFloat 9999),
       (''fecha_transaccion'', PyStr ''2023-10-16'')]]"

definition usuarios_api :: "(string \<times> int pyval) list list" where
  "usuarios_api =
     [[(''id'', PyInt 1), (''name'', PyStr ''Ana''), (''email'', PyStr ''ana@example.com'')],
      [(''id'', PyInt 2), (''name'', PyStr ''Luis'')]]"

text \<open>A stand-in for the text \<^verbatim>\<open>json.dumps\<close> writes: the keys of the record, concatenated.\<close>

definition encode_keys :: "int pyval \<Rightarrow> string" where
  "encode_keys v = (case v of PyDict kvs \<Rightarrow> concat (map fst kvs) | _ \<Rightarrow> [])"

subsection \<open>procesar_lote_extraccion\<close>

text \<open>
  \<^verbatim>\<open>json.dumps\<close> walks the value in order and raises at the first part it cannot write:
  \<^verbatim>\<open>TypeError\<close> on a \<^verbatim>\<open>date\<close> object, \<^verbatim>\<open>ValueError\<close> on an \<^verbatim>\<open>int\<close> with too many digits.
  \<open>dumps_error\<close> is the class of that exception, if any. On any other value
  \<^verbatim>\<open>json.dumps\<close> returns a text, which the parameter \<open>encode\<close> stands for.
\<close>

fun dumps_error :: "'f pyval \<Rightarrow> string option" where
  "dumps_error (PyDate d) = Some ''TypeError''"
| "dumps_error (PyInt i) = (if isl (str_int i) then Some ''ValueError'' else None)"
| "dumps_error (PyList vs) =
     (case List.find (\<lambda>e. e \<noteq> None) (map dumps_error vs) of Some e \<Rightarrow> e | None \<Rightarrow> None)"
| "dumps_error (PyDict kvs) =
     (case List.find (\<lambda>e. e \<noteq> None) (map dumps_error (map snd kvs)) of
        Some e \<Rightarrow> e
      | None \<Rightarrow> None)"
| "dumps_error _ = None"

definition serializable :: "'f pyval \<Rightarrow> bool" where
  "serializable v = (dumps_error v = None)"

definition json_dumps :: "('f pyval \<Rightarrow> string) \<Rightarrow> 'f pyval \<Rightarrow> py_exception + string" where
  "json_dumps encode v =
     (case dumps_error v of
        None \<Rightarrow> Inr (encode v)
      | Some cls \<Rightarrow> Inl (PyExc OtherException cls))"

record 'f error_estructurado =
  payload_original :: string
  motivos_rechazo :: "'f error_details list"
  falla_en_pipeline :: string

text \<open>
  The loop over \<^verbatim>\<open>datos_crudos\<close>, with the two lists it appends to. \<open>modelo\<close> is
  \<^verbatim>\<open>TransaccionVentas(**registro).model_dump()\<close> (\<open>transaccion_limpia\<close> below). Only
  \<^verbatim>\<open>ValidationError\<close> is caught; an exception of \<^verbatim>\<open>json.dumps\<close> leaves the function.
\<close>

fun procesar_registros ::
    "((string \<times> 'f pyval) list \<Rightarrow> 'f ValidationError + 'c) \<Rightarrow> ('f pyval \<Rightarrow> string)
       \<Rightarrow> (string \<times> 'f pyval) list list \<Rightarrow> 'c list \<times> 'f error_estructurado list
       \<Rightarrow> py_exception + 'c list \<times> 'f error_estructurado list" where
  "procesar_registros modelo encode [] (registros_validos, registros_cuarentena) =
     Inr (registros_validos, registros_cuarentena)"
| "procesar_registros modelo encode (registro # resto) (registros_validos, registros_cuarentena) =
     (case modelo registro of
        Inr registro_limpio \<Rightarrow>
          procesar_registros modelo encode resto
            (registros_validos @ [registro_limpio], registros_cuarentena)
      | Inl error_pydantic \<Rightarrow>
          (case json_dumps encode (PyDict registro) of
             Inl e \<Rightarrow> Inl e
           | Inr payload \<Rightarrow>
               procesar_registros modelo encode resto
                 (registros_validos,
                  registros_cuarentena @
                    [\<lparr>payload_original = payload,
                      motivos_rechazo = errors error_pydantic,
                      falla_en_pipeline = ''Pydantic Data Quality Gate''\<rparr>])))"

definition procesar_lote_extraccion ::
    "((string \<times> 'f pyval) list \<Rightarrow> 'f ValidationError + 'c) \<Rightarrow> ('f pyval \<Rightarrow> string)
       \<Rightarrow> (string \<times> 'f pyval) list list
       \<Rightarrow> py_exception + 'c list \<times> 'f error_estructurado list" where
  "procesar_lote_extraccion modelo encode datos_crudos =
     procesar_registros modelo encode datos_crudos ([], [])"

subsection \<open>IngestorGenerico.validar_en_flujo\<close>

text \<open>
  The generator, by what it prints and what it yields. \<open>motivo\<close> is
  \<^verbatim>\<open>e.errors()[0]['msg']\<close>. \<open>modelo\<close> is \<^verbatim>\<open>self.modelo_pydantic(**registro).model_dump(by_alias=False)\<close>.
\<close>

fun motivo :: "'f ValidationError \<Rightarrow> string" where
  "motivo (ValidationError d ds) = msg d"

fun validar_registros ::
    "((string \<times> 'f pyval) list \<Rightarrow> 'f ValidationError + 'c)
       \<Rightarrow> (string \<times> 'f pyval) list list \<Rightarrow> string list \<times> 'c list" where
  "validar_registros modelo [] = ([], [])"
| "validar_registros modelo (registro # resto) =
     (case validar_registros modelo resto of
        (impreso, producidos) \<Rightarrow>
          (case modelo registro of
             Inr modelo_valido \<Rightarrow> (impreso, modelo_valido # producidos)
           | Inl e \<Rightarrow>
               ((''[Error de Calidad] Registro descartado. Motivo: '' @ motivo e) # impreso,
                producidos)))"

definition validar_en_flujo ::
    "((string \<times> 'f pyval) list \<Rightarrow> 'f ValidationError + 'c)
       \<Rightarrow> (string \<times> 'f pyval) list list \<Rightarrow> string list \<times> 'c list" where
  "validar_en_flujo modelo datos_crudos =
     (case validar_registros modelo datos_crudos of
        (impreso, producidos) \<Rightarrow>
          (''[Procesamiento] Iniciando validacion de calidad de datos...'' # impreso, producidos))"

subsection \<open>The two models as validators of a record\<close>

definition transaccion_limpia ::
    "'f pydantic_core \<Rightarrow> date \<Rightarrow> (string \<times> 'f pyval) list
       \<Rightarrow> 'f ValidationError + (string \<times> 'f pyval) list" where
  "transaccion_limpia core today registro =
     (case TransaccionVentas_init core today registro of
        Inl e \<Rightarrow> Inl e
      | Inr registro_limpio \<Rightarrow> Inr (TransaccionVentas_model_dump registro_limpio))"

definition usuario_limpio ::
    "'f pydantic_core \<Rightarrow> (string \<times> 'f pyval) list
       \<Rightarrow> 'f ValidationError + (string \<times> 'f pyval) list" where
  "usuario_limpio core registro =
     (case UsuarioAPI_init core registro of
        Inl e \<Rightarrow> Inl e
      | Inr modelo_valido \<Rightarrow> Inr (UsuarioAPI_model_dump modelo_valido))"

subsection \<open>The verdicts of a batch\<close>

text \<open>
  The clean records of the accepted inputs, and the rejected inputs with their errors,
  both in input order; and the quarantine entry of a rejected input.
\<close>

definition accepted_of :: "('r \<Rightarrow> 'e + 'c) \<Rightarrow> 'r list \<Rightarrow> 'c list" where
  "accepted_of modelo datos =
     List.map_filter (\<lambda>r. case modelo r of Inr c \<Rightarrow> Some c | Inl e \<Rightarrow> None) datos"

definition rejected_of :: "('r \<Rightarrow> 'e + 'c) \<Rightarrow> 'r list \<Rightarrow> ('r \<times> 'e) list" where
  "rejected_of modelo datos =
     List.map_filter (\<lambda>r. case modelo r of Inl e \<Rightarrow> Some (r, e) | Inr c \<Rightarrow> None) datos"

definition quarantine_entry ::
    "('f pyval \<Rightarrow> string) \<Rightarrow> (string \<times> 'f pyval) list \<times> 'f ValidationError
       \<Rightarrow> 'f error_estructurado" where
  "quarantine_entry encode re =
     \<lparr>payload_original = encode (PyDict (fst re)),
      motivos_rechazo = errors (snd re),
      falla_en_pipeline = ''Pydantic Data Quality Gate''\<rparr>"

subsection \<open>What the sample batch is expected to give\<close>

definition limpio_1001 :: "int TransaccionVentas" where
  "limpio_1001 =
     \<lparr>transaccion_id = 1001, email_cliente = ''usuario1@empresa.com'', monto_usd = 15050,
      fecha_transaccion = 738808, metodo_pago = ''TARJETA_CREDITO'', notas_adicionales = None\<rparr>"

definition limpio_1004 :: "int TransaccionVentas" where
  "limpio_1004 =
     \<lparr>transaccion_id = 1004, email_cliente = ''usuario4@empresa.com'', monto_usd = 9999,
      fecha_transaccion = 738809, metodo_pago = ''NO_ESPECIFICADO'', notas_adicionales = None\<rparr>"

definition rechazo_1002 :: "int ValidationError" where
  "rechazo_1002 =
     ValidationError
       \<lparr>err_type = ''value_error'', loc = [''email_cliente''],
        msg = ''An email address must have an @-sign.'',
        err_input = PyStr ''usuario2_sin_arroba.com''\<rparr> []"

definition rechazo_1003 :: "int ValidationError" where
  "rechazo_1003 =
     ValidationError
       \<lparr>err_type = ''greater_than_equal'', loc = [''monto_usd''],
        msg = ''Input should be greater than or equal to 0.01'',
        err_input = PyFloat (- 1000)\<rparr>
       [\<lparr>err_type = ''value_error'', loc = [''fecha_transaccion''],
         msg = ''Value error, Data Quality Error: La fecha de la transaccion no puede ser posterior al dia de hoy.'',
         err_input = PyStr ''2099-12-31''\<rparr>]"

definition usuario_1 :: UsuarioAPI where
  "usuario_1 = \<lparr>id_usuario = 1, nombre = ''Ana'', email = ''ana@example.com''\<rparr>"

definition rechazo_usuario_2 :: "int ValidationError" where
  "rechazo_usuario_2 =
     ValidationError
       \<lparr>err_type = ''missing'', loc = [''email''], msg = ''Field required'',
        err_input = PyDict [(''id'', PyInt 2), (''name'', PyStr ''Luis'')]\<rparr> []"

definition cuarentena_esperada :: "int error_estructurado list" where
  "cuarentena_esperada =
     [\<lparr>payload_original = ''transaccion_idemail_clientemonto_usdfecha_transaccion'',
       motivos_rechazo = errors rechazo_1002,
       falla_en_pipeline = ''Pydantic Data Quality Gate''\<rparr>,
      \<lparr>payload_original = ''transaccion_idemail_clientemonto_usdfecha_transaccion'',
       motivos_rechazo = errors rechazo_1003,
       falla_en_pipeline = ''Pydantic Data Quality Gate''\<rparr>]"

section \<open>Properties of the extraction pipeline\<close>

subsection \<open>Counting tasks under a list update\<close>

lemma holding_enter:
  "i < length ts \<Longrightarrow> ts ! i = Waiting \<Longrightarrow> holding (ts[i := InFlight]) = Suc (holding ts)"
proof (induction ts arbitrary: i)
  case Nil
  then show ?case by simp
next
  case (Cons t ts)
  then show ?case by (cases i) auto
qed

lemma holding_leave:
  "i < length ts \<Longrightarrow> ts ! i = InFlight \<Longrightarrow> Suc (holding (ts[i := Finished r])) = holding ts"
proof (induction ts arbitrary: i)
  case Nil
  then show ?case by simp
next
  case (Cons t ts)
  then show ?case by (cases i) auto
qed

lemma pending_enter:
  "i < length ts \<Longrightarrow> ts ! i = Waiting \<Longrightarrow> Suc (pending (ts[i := InFlight])) = pending ts"
proof (induction ts arbitrary: i rule: pending.induct)
  case 1
  then show ?case by simp
next
  case (2 ts)
  then show ?case by (cases i) auto
next
  case (3 ts)
  then show ?case by (cases i) auto
next
  case (4 r ts)
  then show ?case by (cases i) auto
qed

lemma pending_leave:
  "i < length ts \<Longrightarrow> ts ! i = InFlight \<Longrightarrow> Suc (pending (ts[i := Finished r])) = pending ts"
proof (induction ts arbitrary: i rule: pending.induct)
  case 1
  then show ?case by simp
next
  case (2 ts)
  then show ?case by (cases i) auto
next
  case (3 ts)
  then show ?case by (cases i) auto
next
  case (4 r ts)
  then show ?case by (cases i) auto
qed

lemma holding_replicate: "holding (replicate n Waiting) = 0"
  by (induction n) auto

lemma holding_map_Finished: "holding (map Finished rs) = 0"
  by (induction rs) auto

lemma holding_pos_ex: "0 < holding ts \<Longrightarrow> \<exists>i<length ts. ts ! i = InFlight"
proof (induction ts)
  case Nil
  then show ?case by simp
next
  case (Cons t ts)
  show ?case
  proof (cases "t = InFlight")
    case True
    then show ?thesis by auto
  next
    case False
    with Cons obtain i where "i < length ts" "ts ! i = InFlight" by auto
    then have "Suc i < length (t # ts) \<and> (t # ts) ! Suc i = InFlight" by simp
    then show ?thesis by blast
  qed
qed

lemma pending_pos_ex:
  "0 < pending ts \<Longrightarrow> holding ts = 0 \<Longrightarrow> \<exists>i<length ts. ts ! i = Waiting"
proof (induction ts rule: pending.induct)
  case 1
  then show ?case by simp
next
  case (2 ts)
  then show ?case by auto
next
  case (3 ts)
  then show ?case by simp
next
  case (4 r ts)
  then obtain i where "i < length ts" "ts ! i = Waiting" by auto
  then have "Suc i < length (Finished r # ts) \<and> (Finished r # ts) ! Suc i = Waiting" by simp
  then show ?case by blast
qed

subsection \<open>The gate invariant\<close>

lemma gate_inv_launch: "0 \<le> c \<Longrightarrow> gate_inv c ids (launch c ids)"
  by (simp add: gate_inv_def launch_def holding_replicate)

lemma gate_inv_step:
  assumes "step net ids s s'" and "gate_inv c ids s"
  shows "gate_inv c ids s'"
  using assms(1)
proof (cases rule: step.cases)
  case (enter i g)
  then show ?thesis
    using assms(2) holding_enter [of i "tasks s"]
    by (auto simp: gate_inv_def acquire_def split: if_splits)
next
  case (leave i)
  then show ?thesis
    using assms(2) holding_leave [of i "tasks s" "fetch_entity_data (net i) (ids ! i)"]
    by (auto simp: gate_inv_def release_def)
qed

lemma gate_inv_steps:
  assumes "(step net ids)\<^sup>*\<^sup>* s s'" and "gate_inv c ids s"
  shows "gate_inv c ids s'"
  using assms by (induction rule: rtranclp_induct) (auto intro: gate_inv_step)

lemma step_gate:
  assumes "step net ids s s'"
  shows "acquire (gate s) = Some (gate s') \<or> gate s' = release (gate s)"
  using assms by (cases rule: step.cases) auto

subsection \<open>Every run can be completed, and a completed run holds one result per identifier\<close>

lemma dispatch_all_length: "length (dispatch_all net ids) = length ids"
  by (simp add: dispatch_all_def)

lemma dispatch_all_nth:
  "i < length ids \<Longrightarrow> dispatch_all net ids ! i = fetch_entity_data (net i) (ids ! i)"
  by (simp add: dispatch_all_def nth_enumerate_eq)

lemma results_inv_launch: "results_inv net ids (launch g ids)"
  by (simp add: results_inv_def launch_def list_all2_conv_all_nth dispatch_all_length)

lemma results_inv_step:
  assumes "step net ids s s'" and "results_inv net ids s"
  shows "results_inv net ids s'"
  using assms(1)
proof (cases rule: step.cases)
  case (enter i g)
  with assms(2) show ?thesis
    by (auto simp: results_inv_def list_all2_conv_all_nth nth_list_update)
next
  case (leave i)
  with assms(2) show ?thesis
    by (auto simp: results_inv_def list_all2_conv_all_nth nth_list_update
        dispatch_all_length dispatch_all_nth)
qed

lemma results_inv_steps:
  assumes "(step net ids)\<^sup>*\<^sup>* s s'" and "results_inv net ids s"
  shows "results_inv net ids s'"
  using assms by (induction rule: rtranclp_induct) (auto intro: results_inv_step)

lemma pending_zero_all_finished:
  "pending ts = 0 \<Longrightarrow> list_all2 (\<lambda>t r. t = Waiting \<or> t = InFlight \<or> t = Finished r) ts rs
     \<Longrightarrow> ts = map Finished rs"
proof (induction ts arbitrary: rs rule: pending.induct)
  case 1
  then show ?case by simp
next
  case (2 ts)
  then show ?case by simp
next
  case (3 ts)
  then show ?case by simp
next
  case (4 r ts)
  then show ?case by (cases rs) auto
qed

lemma step_pending:
  assumes "step net ids s s'"
  shows "Suc (pending (tasks s')) = pending (tasks s)"
  using assms by (cases rule: step.cases) (auto simp: pending_enter pending_leave)

lemma can_step:
  assumes "gate_inv c ids s" and "0 < c" and "0 < pending (tasks s)"
  shows "\<exists>s'. step net ids s s'"
proof (cases "holding (tasks s) = 0")
  case True
  with assms(3) obtain i where i: "i < length (tasks s)" "tasks s ! i = Waiting"
    using pending_pos_ex by blast
  from assms(1,2) True have "acquire (gate s) = Some (gate s - 1)"
    by (simp add: gate_inv_def acquire_def)
  with i show ?thesis by (blast intro: step.enter)
next
  case False
  then obtain i where "i < length (tasks s)" "tasks s ! i = InFlight"
    using holding_pos_ex [of "tasks s"] by auto
  then show ?thesis by (blast intro: step.leave)
qed

lemma run_to_end:
  assumes "0 < c"
  shows "gate_inv c ids s \<Longrightarrow> \<exists>s'. (step net ids)\<^sup>*\<^sup>* s s' \<and> pending (tasks s') = 0"
proof (induction "pending (tasks s)" arbitrary: s rule: less_induct)
  case less
  show ?case
  proof (cases "pending (tasks s) = 0")
    case True
    then show ?thesis by blast
  next
    case False
    then obtain s1 where s1: "step net ids s s1"
      using can_step [OF less.prems assms] by auto
    have "pending (tasks s1) < pending (tasks s)"
      using step_pending [OF s1] by simp
    moreover have "gate_inv c ids s1"
      using gate_inv_step [OF s1 less.prems] .
    ultimately obtain s' where "(step net ids)\<^sup>*\<^sup>* s1 s'" "pending (tasks s') = 0"
      using less.hyps by blast
    with s1 show ?thesis
      by (meson converse_rtranclp_into_rtranclp)
  qed
qed

text \<open>
  With a positive capacity, whatever the event loop has done so far, the run can be
  carried on until every coroutine has finished; the gate is then full again and the
  tasks hold \<open>dispatch_all net ids\<close>, the list \<^verbatim>\<open>gather\<close> returns.
\<close>

lemma complete_run:
  assumes "0 < c" and "(step net ids)\<^sup>*\<^sup>* (launch c ids) s"
  shows "(step net ids)\<^sup>*\<^sup>* s \<lparr>gate = c, tasks = map Finished (dispatch_all net ids)\<rparr>"
proof -
  from assms(1) have c0: "0 \<le> c" by simp
  have inv: "gate_inv c ids s"
    using gate_inv_steps [OF assms(2) gate_inv_launch [OF c0]] .
  then obtain s' where s': "(step net ids)\<^sup>*\<^sup>* s s'" "pending (tasks s') = 0"
    using run_to_end [OF assms(1)] by blast
  have "(step net ids)\<^sup>*\<^sup>* (launch c ids) s'"
    using assms(2) s'(1) by simp
  then have r: "results_inv net ids s'" and g: "gate_inv c ids s'"
    using results_inv_steps [OF _ results_inv_launch] gate_inv_steps [OF _ gate_inv_launch [OF c0]]
    by blast+
  from r s'(2) have t: "tasks s' = map Finished (dispatch_all net ids)"
    by (simp add: results_inv_def pending_zero_all_finished)
  with g have "gate s' = c"
    by (simp add: gate_inv_def holding_map_Finished)
  with t have "s' = \<lparr>gate = c, tasks = map Finished (dispatch_all net ids)\<rparr>"
    by simp
  with s'(1) show ?thesis by simp
qed

lemma finished_is_final: "\<not> step net ids \<lparr>gate = c, tasks = map Finished rs\<rparr> s'"
proof
  assume "step net ids \<lparr>gate = c, tasks = map Finished rs\<rparr> s'"
  then show False by (cases rule: step.cases) auto
qed

text \<open>With capacity zero nothing ever moves, although coroutines are waiting.\<close>

lemma closed_gate_stuck: "\<not> step net ids (launch 0 ids) s'"
proof
  assume "step net ids (launch 0 ids) s'"
  then show False by (cases rule: step.cases) (auto simp: launch_def acquire_def)
qed

lemma closed_gate_waiting: "ids \<noteq> [] \<Longrightarrow> tasks (launch 0 ids) ! 0 = Waiting"
  by (cases ids) (simp_all add: launch_def)

subsection \<open>The value fetch_entity_data returns\<close>






section \<open>Properties of the validators\<close>

subsection \<open>The batch loop and the generator, by their verdicts\<close>

lemma accepted_rejected_length:
  "length (accepted_of modelo datos) + length (rejected_of modelo datos) = length datos"
  by (induction datos) (auto simp: accepted_of_def rejected_of_def map_filter_simps split: sum.splits)

lemma procesar_registros_done:
  assumes "list_all (\<lambda>re. serializable (PyDict (fst re))) (rejected_of modelo datos)"
  shows "procesar_registros modelo encode datos (vs, qs)
     = Inr (vs @ accepted_of modelo datos,
            qs @ map (quarantine_entry encode) (rejected_of modelo datos))"
  using assms
proof (induction datos arbitrary: vs qs)
  case Nil
  then show ?case by (simp add: accepted_of_def rejected_of_def map_filter_simps)
next
  case (Cons r datos)
  show ?case
  proof (cases "modelo r")
    case (Inl e)
    with Cons.prems have ser: "serializable (PyDict r)"
      and rest: "list_all (\<lambda>re. serializable (PyDict (fst re))) (rejected_of modelo datos)"
      by (simp_all add: rejected_of_def map_filter_simps)
    from ser have "json_dumps encode (PyDict r) = Inr (encode (PyDict r))"
      by (simp add: json_dumps_def serializable_def del: dumps_error.simps)
    with Inl Cons.IH [OF rest] show ?thesis
      by (simp add: accepted_of_def rejected_of_def map_filter_simps quarantine_entry_def)
  next
    case (Inr c)
    with Cons.prems have rest: "list_all (\<lambda>re. serializable (PyDict (fst re))) (rejected_of modelo datos)"
      by (simp add: rejected_of_def map_filter_simps)
    from Inr Cons.IH [OF rest] show ?thesis
      by (simp add: accepted_of_def rejected_of_def map_filter_simps)
  qed
qed

lemma procesar_registros_Inr:
  "procesar_registros modelo encode datos (vs, qs) = Inr (vs', qs')
   \<Longrightarrow> vs' = vs @ accepted_of modelo datos
     \<and> qs' = qs @ map (quarantine_entry encode) (rejected_of modelo datos)"
proof (induction datos arbitrary: vs qs)
  case Nil
  then show ?case by (simp add: accepted_of_def rejected_of_def map_filter_simps)
next
  case (Cons r datos)
  show ?case
  proof (cases "modelo r")
    case (Inl e)
    with Cons.prems obtain payload where p: "json_dumps encode (PyDict r) = Inr payload"
      and run: "procesar_registros modelo encode datos
             (vs, qs @ [\<lparr>payload_original = payload, motivos_rechazo = errors e,
                          falla_en_pipeline = ''Pydantic Data Quality Gate''\<rparr>]) = Inr (vs', qs')"
      by (auto split: sum.splits)
    from p have "payload = encode (PyDict r)"
      by (simp add: json_dumps_def del: dumps_error.simps split: option.splits)
    with Inl Cons.IH [OF run] show ?thesis
      by (simp add: accepted_of_def rejected_of_def map_filter_simps quarantine_entry_def)
  next
    case (Inr c)
    with Cons.prems have "procesar_registros modelo encode datos (vs @ [c], qs) = Inr (vs', qs')"
      by simp
    from Inr Cons.IH [OF this] show ?thesis
      by (simp add: accepted_of_def rejected_of_def map_filter_simps)
  qed
qed

lemma validar_registros_eq:
  "validar_registros modelo datos
     = (map (\<lambda>re. ''[Error de Calidad] Registro descartado. Motivo: '' @ motivo (snd re))
          (rejected_of modelo datos),
        accepted_of modelo datos)"
  by (induction datos)
     (auto simp: accepted_of_def rejected_of_def map_filter_simps split: sum.splits prod.splits)

subsection \<open>Strip and uppercase\<close>

lemma upper_char_idem: "upper_char (upper_char c) = upper_char c"
  by (auto simp: upper_char_def Let_def of_char_of)

lemma isspace_upper_char: "isspace (upper_char c) = isspace c"
  by (auto simp: upper_char_def isspace_def Let_def of_char_of)

lemma dropWhile_isspace_upper:
  "dropWhile isspace (map upper_char s) = map upper_char (dropWhile isspace s)"
  by (induction s) (auto simp: isspace_upper_char)

lemma py_strip_upper: "py_strip (py_upper s) = py_upper (py_strip s)"
  by (simp add: py_strip_def py_upper_def dropWhile_isspace_upper rev_map)

lemma dropWhile_idem: "dropWhile P (dropWhile P xs) = dropWhile P xs"
  by (induction xs) auto

lemma last_dropWhile: "dropWhile P xs \<noteq> [] \<Longrightarrow> last (dropWhile P xs) = last xs"
  by (induction xs) (auto split: if_splits)

lemma py_strip_idem: "py_strip (py_strip s) = py_strip s"
proof -
  define v where "v = dropWhile isspace s"
  define u where "u = dropWhile isspace (rev v)"
  have front: "dropWhile isspace (rev u) = rev u"
  proof (cases "u = []")
    case True
    then show ?thesis by simp
  next
    case False
    then have "rev v \<noteq> []" by (auto simp: u_def)
    then have v: "v \<noteq> []" by simp
    have "last u = last (rev v)"
      using False unfolding u_def by (rule last_dropWhile)
    also have "\<dots> = hd v"
      using v by (simp add: last_rev)
    finally have "last u = hd v" .
    moreover have "\<not> isspace (hd v)"
      using v unfolding v_def by (rule hd_dropWhile)
    ultimately have "\<not> isspace (hd (rev u))"
      using False by (simp add: hd_rev)
    moreover have "rev u \<noteq> []" using False by simp
    ultimately show ?thesis
      by (cases "rev u") auto
  qed
  have "py_strip (py_strip s) = rev (dropWhile isspace (rev (dropWhile isspace (rev u))))"
    by (simp add: py_strip_def u_def v_def)
  also have "\<dots> = rev (dropWhile isspace u)"
    by (simp add: front)
  also have "\<dots> = rev u"
    by (simp add: u_def dropWhile_idem)
  also have "\<dots> = py_strip s"
    by (simp add: py_strip_def u_def v_def)
  finally show ?thesis .
qed

lemma estandarizar_idem:
  "estandarizar_metodo_pago (estandarizar_metodo_pago s) = estandarizar_metodo_pago s"
proof -
  have "py_upper (py_upper t) = py_upper t" for t
    by (simp add: py_upper_def upper_char_idem)
  then show ?thesis
    by (simp add: estandarizar_metodo_pago_def py_strip_upper py_strip_idem)
qed

lemma estandarizar_default: "estandarizar_metodo_pago ''NO_ESPECIFICADO'' = ''NO_ESPECIFICADO''"
  by (simp add: estandarizar_metodo_pago_def py_strip_def py_upper_def upper_char_def isspace_def)

subsection \<open>Fields of a dumped model validate to themselves\<close>

lemma collect_Inr:
  "collect r f = Inr y \<longleftrightarrow> (\<exists>g x. r = Inr g \<and> f = Inr x \<and> y = g x)"
  by (cases "(r, f)" rule: collect.cases) auto

lemma field_value_Inr: "field_value key v r = Inr x \<longleftrightarrow> r = Inr x"
  by (auto simp: field_value_def split: sum.splits)

lemma required_Inr:
  "required registro key validate = Inr x \<longleftrightarrow> (\<exists>v. map_of registro key = Some v \<and> validate v = Inr x)"
  by (auto simp: required_def field_value_Inr split: option.splits)

lemma with_default_Inr:
  "with_default registro key dflt validate = Inr x \<longleftrightarrow>
     (map_of registro key = None \<and> x = dflt) \<or> (\<exists>v. map_of registro key = Some v \<and> validate v = Inr x)"
  by (auto simp: with_default_def field_value_Inr split: option.splits)

lemma aliased_Inr:
  "aliased registro alias name validate = Inr x \<longleftrightarrow>
     (\<exists>v. (map_of registro alias = Some v \<or> (map_of registro alias = None \<and> map_of registro name = Some v))
          \<and> validate v = Inr x)"
  by (auto simp: aliased_def field_value_Inr split: option.splits)

lemma validate_email_fixed:
  assumes "\<forall>s t. email_validator core s = Inr t \<longrightarrow> email_validator core t = Inr t"
    and "validate_email core v = Inr t"
  shows "validate_email core (PyStr t) = Inr t"
  using assms by (auto simp: validate_email_def validate_str_def split: sum.splits)

lemma monto_usd_fixed:
  "monto_usd_field core v = Inr x \<Longrightarrow> monto_usd_field core (PyFloat x) = Inr x"
  by (auto simp: monto_usd_field_def validate_float_def split: sum.splits if_splits)

lemma fecha_fixed:
  "fecha_transaccion_field core today v = Inr d \<Longrightarrow> today \<le> today'
     \<Longrightarrow> fecha_transaccion_field core today' (PyDate d) = Inr d"
  by (auto simp: fecha_transaccion_field_def validate_date_def validar_fecha_no_futura_def
      split: sum.splits if_splits)

lemma metodo_pago_fixed:
  "metodo_pago_field core v = Inr s \<Longrightarrow> metodo_pago_field core (PyStr s) = Inr s"
  by (auto simp: metodo_pago_field_def validate_str_def estandarizar_idem split: sum.splits)

lemma metodo_pago_default:
  "metodo_pago_field core (PyStr ''NO_ESPECIFICADO'') = Inr ''NO_ESPECIFICADO''"
  by (simp add: metodo_pago_field_def validate_str_def estandarizar_default)

lemma optional_str_fixed:
  "validate_optional_str core v = Inr n
     \<Longrightarrow> validate_optional_str core (case n of None \<Rightarrow> PyNone | Some s \<Rightarrow> PyStr s) = Inr n"
  by (auto simp: validate_optional_str_def validate_str_def split: sum.splits pyval.splits option.splits)

lemma TransaccionVentas_idem:
  assumes email: "\<forall>s t. email_validator core s = Inr t \<longrightarrow> email_validator core t = Inr t"
    and clock: "today \<le> today'"
    and ok: "TransaccionVentas_init core today registro = Inr m"
  shows "TransaccionVentas_init core today' (TransaccionVentas_model_dump m) = Inr m"
proof -
  from ok obtain a b c d e f where
    fa: "required registro ''transaccion_id'' (validate_int core) = Inr a" and
    fb: "required registro ''email_cliente'' (validate_email core) = Inr b" and
    fc: "required registro ''monto_usd'' (monto_usd_field core) = Inr c" and
    fd: "required registro ''fecha_transaccion'' (fecha_transaccion_field core today) = Inr d" and
    fe: "with_default registro ''metodo_pago'' ''NO_ESPECIFICADO'' (metodo_pago_field core) = Inr e" and
    ff: "with_default registro ''notas_adicionales'' None (validate_optional_str core) = Inr f" and
    m: "m = \<lparr>transaccion_id = a, email_cliente = b, monto_usd = c,
              fecha_transaccion = d, metodo_pago = e, notas_adicionales = f\<rparr>"
    unfolding TransaccionVentas_init_def collect_Inr by auto
  let ?dump = "TransaccionVentas_model_dump m"
  have ga: "required ?dump ''transaccion_id'' (validate_int core) = Inr a"
    by (simp add: required_Inr TransaccionVentas_model_dump_def m validate_int_def)
  have gb: "required ?dump ''email_cliente'' (validate_email core) = Inr b"
    using fb validate_email_fixed [OF email]
    by (auto simp: required_Inr TransaccionVentas_model_dump_def m)
  have gc: "required ?dump ''monto_usd'' (monto_usd_field core) = Inr c"
    using fc monto_usd_fixed
    by (auto simp: required_Inr TransaccionVentas_model_dump_def m)
  have gd: "required ?dump ''fecha_transaccion'' (fecha_transaccion_field core today') = Inr d"
    using fd fecha_fixed [OF _ clock]
    by (auto simp: required_Inr TransaccionVentas_model_dump_def m)
  have ge: "with_default ?dump ''metodo_pago'' ''NO_ESPECIFICADO'' (metodo_pago_field core) = Inr e"
    using fe metodo_pago_fixed metodo_pago_default
    by (auto simp: with_default_Inr TransaccionVentas_model_dump_def m)
  have gf: "with_default ?dump ''notas_adicionales'' None (validate_optional_str core) = Inr f"
  proof -
    from ff have "validate_optional_str core (case f of None \<Rightarrow> PyNone | Some s \<Rightarrow> PyStr s) = Inr f"
      using optional_str_fixed
      by (auto simp: with_default_Inr validate_optional_str_def)
    then show ?thesis
      by (simp add: with_default_Inr TransaccionVentas_model_dump_def m)
  qed
  show ?thesis
    unfolding TransaccionVentas_init_def ga gb gc gd ge gf by (simp add: m)
qed

lemma UsuarioAPI_idem:
  assumes email: "\<forall>s t. email_validator core s = Inr t \<longrightarrow> email_validator core t = Inr t"
    and ok: "UsuarioAPI_init core registro = Inr u"
  shows "UsuarioAPI_init core (UsuarioAPI_model_dump u) = Inr u"
proof -
  from ok obtain a b c where
    fa: "aliased registro ''id'' ''id_usuario'' (validate_int core) = Inr a" and
    fb: "aliased registro ''name'' ''nombre'' (validate_str core) = Inr b" and
    fc: "required registro ''email'' (validate_email core) = Inr c" and
    u: "u = \<lparr>id_usuario = a, nombre = b, email = c\<rparr>"
    unfolding UsuarioAPI_init_def collect_Inr by auto
  let ?dump = "UsuarioAPI_model_dump u :: (string \<times> 'a pyval) list"
  have ga: "aliased ?dump ''id'' ''id_usuario'' (validate_int core) = Inr a"
    by (simp add: aliased_Inr UsuarioAPI_model_dump_def u validate_int_def)
  have gb: "aliased ?dump ''name'' ''nombre'' (validate_str core) = Inr b"
    by (simp add: aliased_Inr UsuarioAPI_model_dump_def u validate_str_def)
  have gc: "required ?dump ''email'' (validate_email core) = Inr c"
    using fc validate_email_fixed [OF email]
    by (auto simp: required_Inr UsuarioAPI_model_dump_def u)
  show ?thesis
    unfolding UsuarioAPI_init_def ga gb gc by (simp add: u)
qed

subsection \<open>The sample batch\<close>

lemma sample_inits:
  "map (TransaccionVentas_init sample_core 738886) lote_json_sucio
     = [Inr limpio_1001, Inl rechazo_1002, Inl rechazo_1003, Inr limpio_1004]"
  by code_simp

lemma sample_usuarios:
  "map (UsuarioAPI_init sample_core) usuarios_api = [Inr usuario_1, Inl rechazo_usuario_2]"
  by code_simp

lemma sample_core_email:
  "\<forall>s t. email_validator sample_core s = Inr t \<longrightarrow> email_validator sample_core t = Inr t"
  by (auto simp: sample_core_def split: if_splits)

lemma sample_rejected:
  "rejected_of (transaccion_limpia sample_core 738886) lote_json_sucio
     = [(lote_json_sucio ! 1, rechazo_1002), (lote_json_sucio ! 2, rechazo_1003)]"
  by code_simp

lemma sample_accepted:
  "accepted_of (transaccion_limpia sample_core 738886) lote_json_sucio
     = [TransaccionVentas_model_dump limpio_1001, TransaccionVentas_model_dump limpio_1004]"
  by code_simp

lemma sample_serializable:
  "list_all (\<lambda>re. serializable (PyDict (fst re)))
     (rejected_of (transaccion_limpia sample_core 738886) lote_json_sucio)"
  by code_simp

lemma sample_entries:
  "map (quarantine_entry encode_keys)
     (rejected_of (transaccion_limpia sample_core 738886) lote_json_sucio) = cuarentena_esperada"
  by code_simp

lemma sample_lote:
  "procesar_lote_extraccion (transaccion_limpia sample_core 738886) encode_keys lote_json_sucio
     = Inr ([TransaccionVentas_model_dump limpio_1001, TransaccionVentas_model_dump limpio_1004],
            cuarentena_esperada)"
  by code_simp

section \<open>The claims\<close>

text \<open>
  C1. While a batch runs, the number of coroutines past the admission gate (holding a
  semaphore slot while their request is in flight) never exceeds the capacity the
  semaphore was built with, for every identifier list and every interleaving; the
  counter always equals the capacity minus the number of holders, and a step changes it
  only as \<open>acquire\<close> or \<open>release\<close> does.
\<close>

theorem gate_never_exceeds_capacity:
  assumes "Semaphore c = Inr g" and "(step net ids)\<^sup>*\<^sup>* (launch g ids) s"
  shows "int (holding (tasks s)) \<le> c \<and> gate s = c - int (holding (tasks s))
       \<and> (\<forall>s'. step net ids s s' \<longrightarrow>
             acquire (gate s) = Some (gate s') \<or> gate s' = release (gate s))"
proof -
  from assms(1) have c: "0 \<le> c" "g = c"
    by (auto simp: Semaphore_def split: if_splits)
  have "gate_inv c ids s"
    using gate_inv_steps [OF assms(2)[unfolded c(2)] gate_inv_launch [OF c(1)]] .
  then show ?thesis
    using step_gate by (auto simp: gate_inv_def)
qed

theorem gate_never_exceeds_capacity_witness:
  "Semaphore MAX_CONCURRENT_REQUESTS = Inr 10
   \<and> (step (\<lambda>i. answers_404_for_2 :: 'f session) [1, 2, 3])\<^sup>*\<^sup>* (launch 10 [1, 2, 3])
         \<lparr>gate = 9, tasks = [Waiting, InFlight, Waiting]\<rparr>
   \<and> step (\<lambda>i. answers_404_for_2 :: 'f session) [1, 2, 3]
         \<lparr>gate = 9, tasks = [Waiting, InFlight, Waiting]\<rparr>
         \<lparr>gate = 8, tasks = [InFlight, InFlight, Waiting]\<rparr>
   \<and> int (holding [Waiting, InFlight, Waiting :: 'f task]) \<le> MAX_CONCURRENT_REQUESTS
   \<and> (9::int) = MAX_CONCURRENT_REQUESTS - int (holding [Waiting, InFlight, Waiting :: 'f task])
   \<and> (acquire 9 = Some 8 \<or> (8::int) = release 9)"
proof -
  let ?net = "\<lambda>i::nat. answers_404_for_2 :: 'f session"
  let ?s1 = "\<lparr>gate = 9, tasks = [Waiting, InFlight, Waiting :: 'f task]\<rparr>"
  let ?s2 = "\<lparr>gate = 8, tasks = [InFlight, InFlight, Waiting :: 'f task]\<rparr>"
  have sem: "Semaphore MAX_CONCURRENT_REQUESTS = Inr 10"
    by (simp add: Semaphore_def MAX_CONCURRENT_REQUESTS_def)
  have "step ?net [1, 2, 3] (launch 10 [1, 2, 3]) ?s1"
    using step.enter [of 1 "launch 10 [1, 2, 3]" 9 ?net "[1, 2, 3]"]
    by (simp add: launch_def acquire_def)
  then have run: "(step ?net [1, 2, 3])\<^sup>*\<^sup>* (launch 10 [1, 2, 3]) ?s1"
    by (rule r_into_rtranclp)
  have next_step: "step ?net [1, 2, 3] ?s1 ?s2"
    using step.enter [of 0 ?s1 8 ?net "[1, 2, 3]"] by (simp add: acquire_def)
  note bound = gate_never_exceeds_capacity [OF sem run]
  from bound have b1: "int (holding [Waiting, InFlight, Waiting :: 'f task]) \<le> MAX_CONCURRENT_REQUESTS"
    by simp
  from bound have b2: "(9::int) = MAX_CONCURRENT_REQUESTS - int (holding [Waiting, InFlight, Waiting :: 'f task])"
    by simp
  from bound have "\<forall>s'. step ?net [1, 2, 3] ?s1 s' \<longrightarrow>
      acquire (gate ?s1) = Some (gate s') \<or> gate s' = release (gate ?s1)"
    by blast
  with next_step have "acquire (gate ?s1) = Some (gate ?s2) \<or> gate ?s2 = release (gate ?s1)"
    by blast
  then have b3: "acquire 9 = Some 8 \<or> (8::int) = release 9"
    by simp
  from sem run next_step b1 b2 b3 show ?thesis
    by (intro conjI)
qed

text \<open>
  C2. For every identifier list of length n (empty lists and duplicates included) and a
  positive capacity, the batch returns, and its gathered list has exactly n entries, the
  entry at each position being what the fetch of that identifier returned, whatever the
  other fetches did; the entries counted as successful and the others add up to n, and
  the run of the coroutines under the gate can reach exactly this list.
\<close>

theorem batch_accounts_for_every_identifier:
  assumes "0 < capacity"
  shows "\<exists>r. run_extraction_pipeline capacity net ids = Some (Inr r)
           \<and> results r = dispatch_all net ids
           \<and> length (results r) = length ids
           \<and> exitosos r + length (filter (\<lambda>x. \<not> isinstance_dict x) (results r)) = length ids
           \<and> total r = length ids
           \<and> (step net ids)\<^sup>*\<^sup>* (launch capacity ids)
                 \<lparr>gate = capacity, tasks = map Finished (results r)\<rparr>"
proof -
  let ?rs = "dispatch_all net ids"
  let ?r = "\<lparr>results = ?rs, valid_results = filter isinstance_dict ?rs,
             exitosos = length (filter isinstance_dict ?rs), total = length ids\<rparr>"
  from assms have run: "run_extraction_pipeline capacity net ids = Some (Inr ?r)"
    by (simp add: run_extraction_pipeline_def Semaphore_def gather_def Let_def)
  have "length (filter isinstance_dict ?rs) + length (filter (\<lambda>x. \<not> isinstance_dict x) ?rs)
          = length ?rs"
    by (rule sum_length_filter_compl)
  then have count: "exitosos ?r + length (filter (\<lambda>x. \<not> isinstance_dict x) (results ?r)) = length ids"
    by (simp add: dispatch_all_length)
  have reach: "(step net ids)\<^sup>*\<^sup>* (launch capacity ids)
                 \<lparr>gate = capacity, tasks = map Finished (results ?r)\<rparr>"
    using complete_run [OF assms, of net ids "launch capacity ids"] by simp
  show ?thesis
    using run count reach by (intro exI [of _ ?r]) (simp add: dispatch_all_length)
qed

theorem batch_accounts_for_every_identifier_witness:
  "0 < MAX_CONCURRENT_REQUESTS
   \<and> (\<exists>r. run_extraction_pipeline MAX_CONCURRENT_REQUESTS (\<lambda>i. answers_404_for_2 :: 'f session) [2, 1, 2]
              = Some (Inr r)
          \<and> length (results r) = 3
          \<and> exitosos r + length (filter (\<lambda>x. \<not> isinstance_dict x) (results r)) = 3
          \<and> total r = 3)"
proof -
  have pos: "0 < MAX_CONCURRENT_REQUESTS"
    by (simp add: MAX_CONCURRENT_REQUESTS_def)
  from batch_accounts_for_every_identifier
         [OF pos, of "\<lambda>i. answers_404_for_2 :: 'f session" "[2, 1, 2]"] pos
  show ?thesis by auto
qed










text \<open>
  C6 (as the code has it). \<open>procesar_lote_extraccion\<close> gives every record of a JSON batch
  (one whose rejected records \<^verbatim>\<open>json.dumps\<close> can write) exactly one verdict: the clean
  records of the accepted inputs and the quarantine entries of the rejected ones, each
  list in input order, together as many as the inputs. \<open>validar_en_flujo\<close> yields the clean records of the accepted inputs, in input
  order, and for a rejected input only prints a line.
\<close>

theorem batch_partitions_and_stream_keeps_accepted:
  "(list_all (\<lambda>re. serializable (PyDict (fst re))) (rejected_of modelo datos_crudos) \<longrightarrow>
      procesar_lote_extraccion modelo encode datos_crudos
        = Inr (accepted_of modelo datos_crudos,
               map (quarantine_entry encode) (rejected_of modelo datos_crudos)))
   \<and> length (accepted_of modelo datos_crudos) + length (rejected_of modelo datos_crudos)
       = length datos_crudos
   \<and> validar_en_flujo modelo datos_crudos
       = (''[Procesamiento] Iniciando validacion de calidad de datos...''
            # map (\<lambda>re. ''[Error de Calidad] Registro descartado. Motivo: '' @ motivo (snd re))
                (rejected_of modelo datos_crudos),
          accepted_of modelo datos_crudos)"
  using procesar_registros_done [of modelo datos_crudos encode "[]" "[]"]
  by (simp add: procesar_lote_extraccion_def accepted_rejected_length validar_en_flujo_def
      validar_registros_eq)

theorem batch_partitions_and_stream_keeps_accepted_witness:
  "list_all (\<lambda>re. serializable (PyDict (fst re)))
      (rejected_of (transaccion_limpia sample_core 738886) lote_json_sucio)
   \<and> procesar_lote_extraccion (transaccion_limpia sample_core 738886) encode_keys lote_json_sucio
       = Inr ([TransaccionVentas_model_dump limpio_1001, TransaccionVentas_model_dump limpio_1004],
              cuarentena_esperada)
   \<and> length [TransaccionVentas_model_dump limpio_1001, TransaccionVentas_model_dump limpio_1004]
       + length cuarentena_esperada = length lote_json_sucio"
proof -
  from batch_partitions_and_stream_keeps_accepted [of "transaccion_limpia sample_core 738886" lote_json_sucio encode_keys]
    sample_serializable
  have "procesar_lote_extraccion (transaccion_limpia sample_core 738886) encode_keys lote_json_sucio
       = Inr (accepted_of (transaccion_limpia sample_core 738886) lote_json_sucio,
              map (quarantine_entry encode_keys)
                (rejected_of (transaccion_limpia sample_core 738886) lote_json_sucio))"
    by blast
  then have run: "procesar_lote_extraccion (transaccion_limpia sample_core 738886) encode_keys
        lote_json_sucio
       = Inr ([TransaccionVentas_model_dump limpio_1001, TransaccionVentas_model_dump limpio_1004],
              cuarentena_esperada)"
    by (simp only: sample_accepted sample_entries)
  have len: "length [TransaccionVentas_model_dump limpio_1001, TransaccionVentas_model_dump limpio_1004]
       + length cuarentena_esperada = length lote_json_sucio"
    by (simp add: cuarentena_esperada_def lote_json_sucio_def)
  from sample_serializable run len show ?thesis by (intro conjI)
qed

text \<open>
  The claim as the specification words it asks for a verdict for every record and a
  rejected output. The generator yields one record for two inputs; the rejected one is
  in no output.
\<close>

theorem stream_gives_no_verdict_for_rejected:
  "validar_en_flujo (usuario_limpio sample_core) usuarios_api
     = ([''[Procesamiento] Iniciando validacion de calidad de datos...'',
         ''[Error de Calidad] Registro descartado. Motivo: Field required''],
        [UsuarioAPI_model_dump usuario_1])
   \<and> length (snd (validar_en_flujo (usuario_limpio sample_core) usuarios_api)) = 1
   \<and> length usuarios_api = 2"
  by code_simp

text \<open>
  C7. Normalisation is idempotent: a record that \<open>TransaccionVentas\<close> or \<open>UsuarioAPI\<close>
  accepts dumps to a clean record that the same model accepts again, and the second
  clean record is the first. This covers the aliases (the dump uses the field names,
  which \<^verbatim>\<open>populate_by_name\<close> admits), the coerced types, the defaults and the
  strip-and-uppercase of the payment method. Two things come from outside the
  repository: the address normalisation of the library returns a fixed point of
  itself, and the day of the second validation is not before the day of the first.
\<close>

theorem normalization_is_idempotent:
  assumes "\<forall>s t. email_validator core s = Inr t \<longrightarrow> email_validator core t = Inr t"
    and "today \<le> today'"
  shows "(TransaccionVentas_init core today registro = Inr m \<longrightarrow>
            TransaccionVentas_init core today' (TransaccionVentas_model_dump m) = Inr m
          \<and> transaccion_limpia core today' (TransaccionVentas_model_dump m)
              = Inr (TransaccionVentas_model_dump m))
       \<and> (UsuarioAPI_init core usuario = Inr u \<longrightarrow>
            UsuarioAPI_init core (UsuarioAPI_model_dump u) = Inr u
          \<and> usuario_limpio core (UsuarioAPI_model_dump u) = Inr (UsuarioAPI_model_dump u))"
  using TransaccionVentas_idem [OF assms, of registro m] UsuarioAPI_idem [OF assms(1), of usuario u]
  by (simp add: transaccion_limpia_def usuario_limpio_def)

theorem normalization_is_idempotent_witness:
  "(738886 :: int) \<le> 738887
   \<and> TransaccionVentas_init sample_core 738886 (lote_json_sucio ! 0) = Inr limpio_1001
   \<and> TransaccionVentas_init sample_core 738887 (TransaccionVentas_model_dump limpio_1001)
       = Inr limpio_1001
   \<and> UsuarioAPI_init sample_core (usuarios_api ! 0) = Inr usuario_1
   \<and> UsuarioAPI_init sample_core (UsuarioAPI_model_dump usuario_1) = Inr usuario_1"
proof -
  have clock: "(738886 :: int) \<le> 738887" by simp
  have t: "TransaccionVentas_init sample_core 738886 (lote_json_sucio ! 0) = Inr limpio_1001"
    using sample_inits by (simp add: lote_json_sucio_def)
  have u: "UsuarioAPI_init sample_core (usuarios_api ! 0) = Inr usuario_1"
    using sample_usuarios by (simp add: usuarios_api_def)
  note inst = normalization_is_idempotent [OF sample_core_email clock, of "lote_json_sucio ! 0" limpio_1001
                    "usuarios_api ! 0" usuario_1]
  from inst t u clock show ?thesis
    by blast
qed

text \<open>
  C8 (as the code has it). No run parameter is validated. With a positive capacity the
  batch returns a summary for every identifier list and every network; an empty list is
  not an error (the summary reads 0/0); a capacity of zero raises nothing, no coroutine
  ever passes the gate and the batch does not return; the only error that leaves the
  batch is the \<^verbatim>\<open>ValueError\<close> of the semaphore constructor for a negative capacity, before
  any coroutine is created.
\<close>

theorem batch_raises_only_for_negative_capacity:
  fixes net :: "nat \<Rightarrow> 'f session"
  shows
  "(0 < capacity \<longrightarrow> (\<exists>r. run_extraction_pipeline capacity net ids = Some (Inr r)))
   \<and> (0 \<le> capacity \<longrightarrow>
        run_extraction_pipeline capacity net []
          = Some (Inr \<lparr>results = [], valid_results = [], exitosos = 0, total = 0\<rparr>))
   \<and> (ids \<noteq> [] \<longrightarrow> run_extraction_pipeline 0 net ids = None
        \<and> (\<forall>s'. \<not> step net ids (launch 0 ids) s'))
   \<and> ((\<exists>e. run_extraction_pipeline capacity net ids = Some (Inl e)) = (capacity < 0))
   \<and> (capacity < 0 \<longrightarrow>
        run_extraction_pipeline capacity net ids = Some (Inl (PyExc OtherException ''ValueError'')))"
  using closed_gate_stuck [of net ids]
  by (auto simp: run_extraction_pipeline_def Semaphore_def gather_def dispatch_all_def Let_def)

theorem batch_raises_only_for_negative_capacity_witness:
  "0 < MAX_CONCURRENT_REQUESTS
   \<and> (\<exists>r. run_extraction_pipeline MAX_CONCURRENT_REQUESTS (\<lambda>i. answers_404_for_2 :: 'f session) POKEMON_IDS
            = Some (Inr r))
   \<and> (0::int) \<le> 0
   \<and> run_extraction_pipeline 0 (\<lambda>i. answers_404_for_2 :: 'f session) []
        = Some (Inr \<lparr>results = [], valid_results = [], exitosos = 0, total = 0\<rparr>)
   \<and> [1, 2, 3 :: int] \<noteq> []
   \<and> run_extraction_pipeline 0 (\<lambda>i. answers_404_for_2 :: 'f session) [1, 2, 3] = None
   \<and> (-1 :: int) < 0
   \<and> run_extraction_pipeline (-1) (\<lambda>i. answers_404_for_2 :: 'f session) [1, 2, 3]
        = Some (Inl (PyExc OtherException ''ValueError''))"
proof -
  let ?net = "\<lambda>i::nat. answers_404_for_2 :: 'f session"
  have pos: "0 < MAX_CONCURRENT_REQUESTS"
    by (simp add: MAX_CONCURRENT_REQUESTS_def)
  from batch_raises_only_for_negative_capacity [of MAX_CONCURRENT_REQUESTS ?net POKEMON_IDS] pos
  have 1: "\<exists>r. run_extraction_pipeline MAX_CONCURRENT_REQUESTS ?net POKEMON_IDS = Some (Inr r)"
    by blast
  have z: "(0::int) \<le> 0" by simp
  from batch_raises_only_for_negative_capacity [of 0 ?net "[]"] z
  have 2: "run_extraction_pipeline 0 ?net []
        = Some (Inr \<lparr>results = [], valid_results = [], exitosos = 0, total = 0\<rparr>)"
    by blast
  have ne: "[1, 2, 3 :: int] \<noteq> []" by simp
  from batch_raises_only_for_negative_capacity [of 0 ?net "[1, 2, 3]"] ne
  have 3: "run_extraction_pipeline 0 ?net [1, 2, 3] = None"
    by blast
  have neg: "(-1 :: int) < 0" by simp
  from batch_raises_only_for_negative_capacity [of "-1" ?net "[1, 2, 3]"] neg
  have 4: "run_extraction_pipeline (-1) ?net [1, 2, 3] = Some (Inl (PyExc OtherException ''ValueError''))"
    by blast
  from pos 1 z 2 ne 3 neg 4 show ?thesis
    by (intro conjI)
qed

text \<open>
  The claim as the specification words it asks for a configuration error on an empty
  identifier source and on a capacity that is not positive.
\<close>

theorem empty_batch_and_closed_gate_raise_nothing:
  "run_extraction_pipeline MAX_CONCURRENT_REQUESTS (\<lambda>i. answers_404_for_2 :: 'f session) []
     = Some (Inr \<lparr>results = [], valid_results = [], exitosos = 0, total = 0\<rparr>)
   \<and> Semaphore 0 = Inr 0
   \<and> run_extraction_pipeline 0 (\<lambda>i. answers_404_for_2 :: 'f session) [1, 2, 3] = None"
  by (simp add: run_extraction_pipeline_def Semaphore_def MAX_CONCURRENT_REQUESTS_def
      gather_def dispatch_all_def)




text \<open>
  C10. When \<open>procesar_lote_extraccion\<close> returns, its quarantine list has, for each rejected
  record in input order, the text \<^verbatim>\<open>json.dumps\<close> writes for the record (a string, not the
  mapping), the error list of the \<^verbatim>\<open>ValidationError\<close> as it is, and the marker
  \<^verbatim>\<open>Pydantic Data Quality Gate\<close>; it returns whenever \<^verbatim>\<open>json.dumps\<close> can write the
  rejected records; and the rejected records it refers to are the records of the input
  themselves.
\<close>

theorem quarantine_entry_contents:
  "(procesar_lote_extraccion modelo encode datos_crudos = Inr (registros_validos, registros_cuarentena)
      \<longrightarrow> registros_cuarentena
            = map (\<lambda>re. \<lparr>payload_original = encode (PyDict (fst re)),
                          motivos_rechazo = errors (snd re),
                          falla_en_pipeline = ''Pydantic Data Quality Gate''\<rparr>)
                (rejected_of modelo datos_crudos))
   \<and> (list_all (\<lambda>re. serializable (PyDict (fst re))) (rejected_of modelo datos_crudos)
      \<longrightarrow> (\<exists>registros_validos registros_cuarentena.
             procesar_lote_extraccion modelo encode datos_crudos
               = Inr (registros_validos, registros_cuarentena)))
   \<and> map fst (rejected_of modelo datos_crudos) = filter (\<lambda>registro. isl (modelo registro)) datos_crudos"
proof -
  have a: "registros_cuarentena
            = map (\<lambda>re. \<lparr>payload_original = encode (PyDict (fst re)),
                          motivos_rechazo = errors (snd re),
                          falla_en_pipeline = ''Pydantic Data Quality Gate''\<rparr>)
                (rejected_of modelo datos_crudos)"
    if "procesar_lote_extraccion modelo encode datos_crudos = Inr (registros_validos, registros_cuarentena)"
    using procesar_registros_Inr [of modelo encode datos_crudos "[]" "[]"] that
    by (simp add: procesar_lote_extraccion_def quarantine_entry_def [abs_def])
  have b: "\<exists>vs qs. procesar_lote_extraccion modelo encode datos_crudos = Inr (vs, qs)"
    if "list_all (\<lambda>re. serializable (PyDict (fst re))) (rejected_of modelo datos_crudos)"
    using procesar_registros_done [OF that, of encode "[]" "[]"]
    by (simp add: procesar_lote_extraccion_def)
  have c: "map fst (rejected_of modelo datos_crudos) = filter (\<lambda>registro. isl (modelo registro)) datos_crudos"
    by (induction datos_crudos)
       (auto simp: rejected_of_def map_filter_simps split: sum.splits)
  from a b c show ?thesis
    by blast
qed

theorem quarantine_entry_contents_witness:
  "procesar_lote_extraccion (transaccion_limpia sample_core 738886) encode_keys lote_json_sucio
       = Inr ([TransaccionVentas_model_dump limpio_1001, TransaccionVentas_model_dump limpio_1004],
              cuarentena_esperada)
   \<and> cuarentena_esperada
       = map (\<lambda>re. \<lparr>payload_original = encode_keys (PyDict (fst re)),
                     motivos_rechazo = errors (snd re),
                     falla_en_pipeline = ''Pydantic Data Quality Gate''\<rparr>)
           [(lote_json_sucio ! 1, rechazo_1002), (lote_json_sucio ! 2, rechazo_1003)]"
proof -
  from quarantine_entry_contents [of "transaccion_limpia sample_core 738886" encode_keys lote_json_sucio
              "[TransaccionVentas_model_dump limpio_1001, TransaccionVentas_model_dump limpio_1004]"
              cuarentena_esperada] sample_lote
  have "cuarentena_esperada
       = map (\<lambda>re. \<lparr>payload_original = encode_keys (PyDict (fst re)),
                     motivos_rechazo = errors (snd re),
                     falla_en_pipeline = ''Pydantic Data Quality Gate''\<rparr>)
           (rejected_of (transaccion_limpia sample_core 738886) lote_json_sucio)"
    by blast
  then have "cuarentena_esperada
       = map (\<lambda>re. \<lparr>payload_original = encode_keys (PyDict (fst re)),
                     motivos_rechazo = errors (snd re),
                     falla_en_pipeline = ''Pydantic Data Quality Gate''\<rparr>)
           [(lote_json_sucio ! 1, rechazo_1002), (lote_json_sucio ! 2, rechazo_1003)]"
    by (simp only: sample_rejected)
  with sample_lote show ?thesis by (intro conjI)
qed

end
